theory Spec2Isabelle
  imports Complex_Main
begin

section \<open>Data model (types.ts)\<close>

text \<open>
  Numbers: a JavaScript \<^verbatim>\<open>number\<close> that holds a coordinate is modelled as a
  \<^typ>\<open>real\<close>; NaN and the infinities are not represented, and sums and products are
  exact. Where the rounding of a double decides a branch (the comparison of the two
  differences in the synthetic route) the machine operation is a parameter. An optional field
  (\<^verbatim>\<open>pickupLat?: number\<close>) is a \<^typ>\<open>real option\<close>, \<^verbatim>\<open>undefined\<close> being
  \<^term>\<open>None\<close>. Integers (\<^verbatim>\<open>createdAt\<close>, the id hash) are \<^typ>\<open>int\<close>.
  Strings are \<^typ>\<open>string\<close>; \<^verbatim>\<open>charCodeAt\<close> is the character's code.
\<close>

datatype DeliveryStatus = PENDING | ACCEPTED | PICKED_UP | ARRIVED_DESTINATION | DELIVERED

datatype PaymentMethod = PIX | CASH

datatype PayerType = SENDER | RECIPIENT

record DeliveryRequest =
  req_id :: string
  itemDescription :: string
  pickupAddress :: string
  dropoffAddress :: string
  status :: DeliveryStatus
  createdAt :: int
  imageUrl :: "string option"
  courierId :: "string option"
  recipientName :: string
  recipientPhone :: string
  paymentMethod :: PaymentMethod
  payer :: PayerType
  pickupLat :: "real option"
  pickupLng :: "real option"
  dropoffLat :: "real option"
  dropoffLng :: "real option"

type_synonym coords = "real \<times> real"

section \<open>The request collection (App.tsx)\<close>

text \<open>
  \<^verbatim>\<open>handleCreateRequest\<close> spreads the new request, then overwrites \<^verbatim>\<open>id\<close>,
  \<^verbatim>\<open>createdAt\<close> and \<^verbatim>\<open>status\<close>, and puts the result in front of the list.
  The random id and the clock reading are parameters.
\<close>

definition handleCreateRequest ::
  "string \<Rightarrow> int \<Rightarrow> DeliveryRequest \<Rightarrow> DeliveryRequest list \<Rightarrow> DeliveryRequest list" where
  "handleCreateRequest random_id now newRequest prev =
     (newRequest\<lparr>req_id := random_id, createdAt := now, status := PENDING\<rparr>) # prev"

text \<open>
  \<^verbatim>\<open>handleUpdateStatus\<close> maps over the list and replaces the status of every request
  whose id is the given one. It has no other branch and returns nothing to its caller.
\<close>

definition handleUpdateStatus ::
  "string \<Rightarrow> DeliveryStatus \<Rightarrow> DeliveryRequest list \<Rightarrow> DeliveryRequest list" where
  "handleUpdateStatus i s prev = map (\<lambda>req. if req_id req = i then req\<lparr>status := s\<rparr> else req) prev"

text \<open>
  The list the application starts with; both entries read the clock at start-up. The
  letters beyond ASCII are given by their code.
\<close>

definition initialRequests :: "int \<Rightarrow> DeliveryRequest list" where
  "initialRequests now =
     [\<lparr>req_id = ''1'', itemDescription = ''Documentos Importantes'',
       pickupAddress = ''Rua do Acampamento, 300'', dropoffAddress = ''Av. Rio Branco, 850'',
       status = PENDING, createdAt = now, imageUrl = None, courierId = None,
       recipientName = ''Maria Silva'', recipientPhone = ''(55) 99999-1234'',
       paymentMethod = PIX, payer = SENDER,
       pickupLat = None, pickupLng = None, dropoffLat = None, dropoffLng = None\<rparr>,
      \<lparr>req_id = ''2'',
       itemDescription = ''Pe'' @ [char_of (231::nat)] @ ''as de Computador'',
       pickupAddress = ''Rua Ven'' @ [char_of (226::nat)] @ ''ncio Aires, 1500'',
       dropoffAddress = ''Av. Nossa Sra. Medianeira, 100'',
       status = PENDING, createdAt = now, imageUrl = None, courierId = None,
       recipientName = ''Jo'' @ [char_of (227::nat)] @ ''o Santos'',
       recipientPhone = ''(55) 98888-5678'',
       paymentMethod = CASH, payer = RECIPIENT,
       pickupLat = None, pickupLng = None, dropoffLat = None, dropoffLng = None\<rparr>]"

section \<open>Courier side (components/CourierView.tsx)\<close>

subsection \<open>Coordinates and the synthetic route\<close>

definition DEFAULT_LAT :: real where
  "DEFAULT_LAT = - 29.6842"

definition DEFAULT_LNG :: real where
  "DEFAULT_LNG = - 53.8069"

text \<open>
  \<^verbatim>\<open>isNum\<close> rejects non-numbers, NaN and the infinities. None of them is a
  \<^typ>\<open>real\<close>, so on the model's numbers the check always passes.
\<close>

definition isNum :: "real \<Rightarrow> bool" where
  "isNum val = True"

definition getSafeLat :: "real \<Rightarrow> real" where
  "getSafeLat lat = (if isNum lat then lat else DEFAULT_LAT)"

definition getSafeLng :: "real \<Rightarrow> real" where
  "getSafeLng lng = (if isNum lng then lng else DEFAULT_LNG)"

text \<open>
  JavaScript truthiness of an optional number, as used in
  \<^verbatim>\<open>req.pickupLat && req.pickupLng\<close>: \<^verbatim>\<open>undefined\<close> and \<^verbatim>\<open>0\<close> are falsy.
\<close>

fun truthy :: "real option \<Rightarrow> bool" where
  "truthy None = False"
| "truthy (Some x) = (x \<noteq> 0)"

definition getCoordinates :: "string \<Rightarrow> real \<Rightarrow> real \<Rightarrow> coords" where
  "getCoordinates ident centerLat centerLng =
     (let baseLat = getSafeLat centerLat;
          baseLng = getSafeLng centerLng;
          safeId = (if ident = [] then ''default'' else ident);
          hash = foldl (\<lambda>acc char. acc + of_char char) (0::int) safeId;
          latOffset = real_of_int ((hash mod 100) - 50) / 2500;
          lngOffset = real_of_int (((hash * 13) mod 100) - 50) / 2500
      in (baseLat + latOffset, baseLng + lngOffset))"

text \<open>
  The difference of two doubles is the exact difference rounded to a double. The rounding
  of IEEE 754 binary64 (to nearest, ties to even): around a number with binary exponent
  \<open>e\<close> the doubles are the multiples of \<open>2 powr (e - 52)\<close>, the exponent being taken
  no lower than \<open>-1022\<close>. A result beyond the largest double is infinite in the code
  and is not represented here.
\<close>

definition roundHalfEven :: "real \<Rightarrow> int" where
  "roundHalfEven y =
     (let f = \<lfloor>y\<rfloor>; d = y - of_int f
      in if d < 1 / 2 then f else if d > 1 / 2 then f + 1 else if even f then f else f + 1)"

definition toDouble :: "real \<Rightarrow> real" where
  "toDouble x =
     (if x = 0 then 0
      else (let e = max \<lfloor>log 2 \<bar>x\<bar>\<rfloor> (- 1022);
                ulp = 2 powr (of_int e - 52)
            in of_int (roundHalfEven (x / ulp)) * ulp))"

definition doubleSub :: "real \<Rightarrow> real \<Rightarrow> real" where
  "doubleSub a b = toDouble (a - b)"

text \<open>
  \<^verbatim>\<open>generateSmartRouteFallback\<close>. The two subtractions in
  \<^verbatim>\<open>Math.abs(startLat - endLat) > Math.abs(startLng - endLng)\<close> are the machine's;
  \<open>sub\<close> is that subtraction, \<open>doubleSub\<close> in the running program. Absolute value and
  comparison of doubles are exact.
\<close>

definition generateSmartRouteFallback ::
  "(real \<Rightarrow> real \<Rightarrow> real) \<Rightarrow> coords \<Rightarrow> coords \<Rightarrow> coords list" where
  "generateSmartRouteFallback sub start end =
     (case start of (startLat, startLng) \<Rightarrow>
      case end of (endLat, endLng) \<Rightarrow>
        (let goLatFirst = (\<bar>sub startLat endLat\<bar> > \<bar>sub startLng endLng\<bar>)
         in if goLatFirst then [start, (endLat, startLng), end]
            else [start, (startLat, endLng), end]))"

subsection \<open>Component state\<close>

datatype CourierTab = TabHome | TabProfile | TabHelp | TabStatement

record CourierState =
  activeTab :: CourierTab
  selectedId :: "string option"
  userLocation :: coords
  isOnline :: bool
  incomingOffer :: "DeliveryRequest option"
  ignoredOffers :: "string set"
  activeDelivery :: "DeliveryRequest option"

text \<open>The values the component's \<^verbatim>\<open>useState\<close> calls start from.\<close>

definition initialCourierState :: CourierState where
  "initialCourierState =
     \<lparr>activeTab = TabHome, selectedId = None, userLocation = (DEFAULT_LAT, DEFAULT_LNG),
      isOnline = True, incomingOffer = None, ignoredOffers = {}, activeDelivery = None\<rparr>"

subsection \<open>Effects run when the request list or the courier state changes\<close>

definition isActiveStatus :: "DeliveryRequest \<Rightarrow> bool" where
  "isActiveStatus r = (status r \<in> set [ACCEPTED, PICKED_UP, ARRIVED_DESTINATION])"

definition activeDeliveryDetection :: "DeliveryRequest list \<Rightarrow> CourierState \<Rightarrow> CourierState" where
  "activeDeliveryDetection requests st =
     (let currentActive = find isActiveStatus requests;
          st1 = st\<lparr>activeDelivery := currentActive\<rparr>
      in if currentActive \<noteq> None then st1\<lparr>activeTab := TabHome, incomingOffer := None\<rparr>
         else st1)"

definition isOfferable :: "string set \<Rightarrow> DeliveryRequest \<Rightarrow> bool" where
  "isOfferable ignored r = (status r = PENDING \<and> req_id r \<notin> ignored)"

text \<open>The map is only moved after the offer is chosen; that part is not modelled.\<close>

definition offerDetection :: "DeliveryRequest list \<Rightarrow> CourierState \<Rightarrow> CourierState" where
  "offerDetection requests st =
     (if \<not> isOnline st \<or> activeDelivery st \<noteq> None then st\<lparr>incomingOffer := None\<rparr>
      else (case find (isOfferable (ignoredOffers st)) requests of
              Some nextOffer \<Rightarrow>
                st\<lparr>incomingOffer := Some nextOffer, selectedId := Some (req_id nextOffer),
                   activeTab := TabHome\<rparr>
            | None \<Rightarrow> st\<lparr>incomingOffer := None\<rparr>))"

subsection \<open>Coordinate accessors\<close>

definition getTargetCoordinates :: "CourierState \<Rightarrow> DeliveryRequest \<Rightarrow> coords option" where
  "getTargetCoordinates st request =
     (if \<not> isNum (fst (userLocation st)) \<or> \<not> isNum (snd (userLocation st)) then None
      else if status request = PICKED_UP \<or> status request = ARRIVED_DESTINATION then
        (if truthy (dropoffLat request) \<and> truthy (dropoffLng request)
         then Some (the (dropoffLat request), the (dropoffLng request))
         else (let c = getCoordinates (req_id request) (fst (userLocation st)) (snd (userLocation st))
               in Some (fst c + 0.01, snd c + 0.01)))
      else if truthy (pickupLat request) \<and> truthy (pickupLng request)
        then Some (the (pickupLat request), the (pickupLng request))
      else Some (getCoordinates (req_id request) (fst (userLocation st)) (snd (userLocation st))))"

definition getPickupCoords :: "CourierState \<Rightarrow> DeliveryRequest \<Rightarrow> coords" where
  "getPickupCoords st req =
     (if truthy (pickupLat req) \<and> truthy (pickupLng req)
      then (the (pickupLat req), the (pickupLng req))
      else getCoordinates (req_id req) (fst (userLocation st)) (snd (userLocation st)))"

definition getDropoffCoords :: "CourierState \<Rightarrow> DeliveryRequest \<Rightarrow> coords" where
  "getDropoffCoords st req =
     (if truthy (dropoffLat req) \<and> truthy (dropoffLng req)
      then (the (dropoffLat req), the (dropoffLng req))
      else (let pickup = getPickupCoords st req in (fst pickup + 0.01, snd pickup + 0.01)))"

subsection \<open>Route drawing\<close>

text \<open>
  \<^verbatim>\<open>fetchRoute\<close> asks the routing service; its answer (\<^verbatim>\<open>null\<close> on any failure, a
  list of points otherwise) is given by the parameter \<open>fetchRoute\<close>; \<open>sub\<close> is the
  machine subtraction handed on to the fallback. \<^verbatim>\<open>drawRoute\<close> returns the points of
  the polyline it puts on the map, or \<^term>\<open>None\<close> when it draws nothing.
\<close>

definition drawRoute ::
  "(real \<Rightarrow> real \<Rightarrow> real) \<Rightarrow> (coords \<Rightarrow> coords \<Rightarrow> coords list option) \<Rightarrow> CourierState \<Rightarrow>
   coords list option" where
  "drawRoute sub fetchRoute st =
     (let targetRequest = (case activeDelivery st of Some a \<Rightarrow> Some a | None \<Rightarrow> incomingOffer st)
      in case targetRequest of
           None \<Rightarrow> None
         | Some target \<Rightarrow>
             if isOnline st then
               (let startCoords = getPickupCoords st target;
                    endCoords = getDropoffCoords st target
                in if isNum (fst startCoords) \<and> isNum (snd startCoords) \<and>
                      isNum (fst endCoords) \<and> isNum (snd endCoords)
                   then (let fetched = fetchRoute startCoords endCoords;
                             routePoints =
                               (case fetched of
                                  None \<Rightarrow> generateSmartRouteFallback sub startCoords endCoords
                                | Some ps \<Rightarrow>
                                    if length ps = 0
                                    then generateSmartRouteFallback sub startCoords endCoords
                                    else ps)
                         in if length routePoints > 0 then Some routePoints else None)
                   else None)
             else None)"

subsection \<open>Handlers\<close>

text \<open>
  A handler reads the component state and the request list and updates both; the pair
  of the two is what it is given and what it returns.
\<close>

type_synonym app = "DeliveryRequest list \<times> CourierState"

definition handleAcceptOffer :: "app \<Rightarrow> app" where
  "handleAcceptOffer a =
     (case a of (requests, st) \<Rightarrow>
        (case incomingOffer st of
           Some offer \<Rightarrow>
             (handleUpdateStatus (req_id offer) ACCEPTED requests,
              st\<lparr>incomingOffer := None, selectedId := None\<rparr>)
         | None \<Rightarrow> (requests, st)))"

definition handleDeclineOffer :: "app \<Rightarrow> app" where
  "handleDeclineOffer a =
     (case a of (requests, st) \<Rightarrow>
        (case incomingOffer st of
           Some offer \<Rightarrow>
             (requests,
              st\<lparr>ignoredOffers := insert (req_id offer) (ignoredOffers st),
                 incomingOffer := None, selectedId := None\<rparr>)
         | None \<Rightarrow> (requests, st)))"

definition handleProgressAction :: "app \<Rightarrow> app" where
  "handleProgressAction a =
     (case a of (requests, st) \<Rightarrow>
        (case activeDelivery st of
           None \<Rightarrow> (requests, st)
         | Some active \<Rightarrow>
             (case status active of
                ACCEPTED \<Rightarrow> (handleUpdateStatus (req_id active) PICKED_UP requests, st)
              | PICKED_UP \<Rightarrow> (handleUpdateStatus (req_id active) ARRIVED_DESTINATION requests, st)
              | ARRIVED_DESTINATION \<Rightarrow>
                  (handleUpdateStatus (req_id active) DELIVERED requests,
                   st\<lparr>activeDelivery := None\<rparr>)
              | _ \<Rightarrow> (requests, st))))"

section \<open>Customer side (components/CustomerView.tsx)\<close>

subsection \<open>Geocoding cascade\<close>

text \<open>
  \<^verbatim>\<open>String.prototype.trim\<close> removes white space and line terminators at both ends.
  Characters are single code units up to U+00FF here, so the white space is TAB, LF, VT,
  FF, CR, SPACE and NBSP.
\<close>

definition isWhiteSpace :: "char \<Rightarrow> bool" where
  "isWhiteSpace c = (of_char c \<in> set [9, 10, 11, 12, 13, 32, 160 :: nat])"

definition trim :: "string \<Rightarrow> string" where
  "trim s = rev (dropWhile isWhiteSpace (rev (dropWhile isWhiteSpace s)))"

datatype Precision = Exact | Street | Neighborhood | City

text \<open>
  One entry of the service's JSON answer. \<^verbatim>\<open>parseFloat\<close> of its \<^verbatim>\<open>lat\<close> and
  \<^verbatim>\<open>lon\<close> strings is taken as done: the fields hold the parsed numbers.
\<close>

record NominatimHit =
  hit_lat :: real
  hit_lon :: real
  hit_display_name :: string

record GeocodeResult =
  geo_lat :: real
  geo_lng :: real
  display_name :: string
  precision :: Precision

text \<open>
  The network. A lookup (\<^verbatim>\<open>fetch\<close> followed by \<^verbatim>\<open>response.json()\<close>) takes the
  query and the state of the outside world, and gives the decoded array, or \<^term>\<open>None\<close>
  when either call throws or the body is \<^verbatim>\<open>null\<close>, and the next state of the world.
  The second component of \<open>'w net\<close> is the list of queries sent so far, oldest first.
\<close>

type_synonym 'w lookup = "string \<Rightarrow> 'w \<Rightarrow> NominatimHit list option \<times> 'w"

type_synonym 'w net = "'w \<times> string list"

definition doFetch :: "'w lookup \<Rightarrow> string \<Rightarrow> 'w net \<Rightarrow> NominatimHit option \<times> 'w net" where
  "doFetch lookup query n =
     (case n of (world, sent) \<Rightarrow>
      case lookup query world of (response, world') \<Rightarrow>
        ((case response of
            None \<Rightarrow> None
          | Some data \<Rightarrow> (case data of [] \<Rightarrow> None | first # _ \<Rightarrow> Some first)),
         (world', sent @ [query])))"

definition toResult :: "Precision \<Rightarrow> NominatimHit \<Rightarrow> GeocodeResult" where
  "toResult p result =
     \<lparr>geo_lat = hit_lat result, geo_lng = hit_lon result,
      display_name = hit_display_name result, precision = p\<rparr>"

text \<open>
  One \<^verbatim>\<open>if (...) { ...; if (result) return ...; }\<close> block: the guard, the query when
  the guard holds, and the value returned when the query has a match.
\<close>

definition attempt ::
  "'w lookup \<Rightarrow> bool \<Rightarrow> string \<Rightarrow> Precision \<Rightarrow> 'w net \<Rightarrow> GeocodeResult option \<times> 'w net" where
  "attempt lookup guard query p n =
     (if guard then
        (case doFetch lookup query n of (result, n') \<Rightarrow> (map_option (toResult p) result, n'))
      else (None, n))"

definition region :: string where
  "region = '', Rio Grande do Sul, Brasil''"

definition geocodeAddress ::
  "'w lookup \<Rightarrow> string \<Rightarrow> string \<Rightarrow> string \<Rightarrow> string \<Rightarrow> 'w net \<Rightarrow> GeocodeResult option \<times> 'w net" where
  "geocodeAddress lookup street number neighborhood city n0 =
     (let cleanStreet = trim street;
          cleanNum = trim number;
          cleanCity = trim city;
          cleanNeighborhood = trim neighborhood
      in (case attempt lookup (cleanStreet \<noteq> [] \<and> cleanNum \<noteq> [] \<and> cleanCity \<noteq> [])
                 (cleanStreet @ '', '' @ cleanNum @ '', '' @ cleanCity @ region) Exact n0 of
            (Some r, n1) \<Rightarrow> (Some r, n1)
          | (None, n1) \<Rightarrow>
         (case attempt lookup (cleanStreet \<noteq> [] \<and> cleanCity \<noteq> [])
                 (cleanStreet @ '', '' @ cleanCity @ region) Street n1 of
            (Some r, n2) \<Rightarrow> (Some r, n2)
          | (None, n2) \<Rightarrow>
         (case attempt lookup (cleanNeighborhood \<noteq> [] \<and> cleanCity \<noteq> [])
                 (cleanNeighborhood @ '', '' @ cleanCity @ region) Neighborhood n2 of
            (Some r, n3) \<Rightarrow> (Some r, n3)
          | (None, n3) \<Rightarrow>
         (case attempt lookup (cleanCity \<noteq> []) (cleanCity @ region) City n3 of
            (Some r, n4) \<Rightarrow> (Some r, n4)
          | (None, n4) \<Rightarrow> (None, n4))))))"

subsection \<open>Tracking: the leg and the simulated courier\<close>

text \<open>
  The tracking effect. It stops early (no leg) when nothing is tracked or the request is
  DELIVERED; otherwise it derives the two stops (its local constants \<^verbatim>\<open>pickup\<close> and
  \<^verbatim>\<open>dropoff\<close>, here \<open>trackingPickup\<close> and \<open>trackingDropoff\<close>) and the segment
  \<open>(startPos, endPos)\<close> along which the courier marker is moved.
\<close>

definition trackingPickup :: "coords \<Rightarrow> DeliveryRequest \<Rightarrow> coords" where
  "trackingPickup userLoc trackingRequest =
     (let defaultPickup = (fst userLoc - 0.005, snd userLoc - 0.005)
      in if truthy (pickupLat trackingRequest) \<and> truthy (pickupLng trackingRequest)
         then (the (pickupLat trackingRequest), the (pickupLng trackingRequest))
         else defaultPickup)"

definition trackingDropoff :: "coords \<Rightarrow> DeliveryRequest \<Rightarrow> coords" where
  "trackingDropoff userLoc trackingRequest =
     (let defaultDropoff = (fst userLoc + 0.005, snd userLoc + 0.005)
      in if truthy (dropoffLat trackingRequest) \<and> truthy (dropoffLng trackingRequest)
         then (the (dropoffLat trackingRequest), the (dropoffLng trackingRequest))
         else defaultDropoff)"

definition trackingLeg :: "coords \<Rightarrow> DeliveryRequest option \<Rightarrow> (coords \<times> coords) option" where
  "trackingLeg userLoc tracking =
     (case tracking of
        None \<Rightarrow> None
      | Some trackingRequest \<Rightarrow>
          if status trackingRequest = DELIVERED then None
          else
            (let pickup = trackingPickup userLoc trackingRequest;
                 dropoff = trackingDropoff userLoc trackingRequest;
                 startPos = (fst pickup - 0.01, snd pickup - 0.01);
                 endPos = pickup
             in if status trackingRequest = ACCEPTED then Some (startPos, pickup)
                else if status trackingRequest = PICKED_UP then Some (pickup, dropoff)
                else if status trackingRequest = ARRIVED_DESTINATION then Some (dropoff, dropoff)
                else Some (startPos, endPos)))"

text \<open>
  One run of the interval callback: the new value of \<^verbatim>\<open>progress\<close> and the position
  computed from it.
\<close>

definition simulationTick :: "DeliveryStatus \<Rightarrow> coords \<Rightarrow> coords \<Rightarrow> real \<Rightarrow> real \<times> coords" where
  "simulationTick trackedStatus startPos endPos progress =
     (let progress1 = progress + 0.005;
          progress2 = (if progress1 > 1
                       then (if trackedStatus = ARRIVED_DESTINATION then 1 else 0)
                       else progress1);
          curLat = fst startPos + (fst endPos - fst startPos) * progress2;
          curLng = snd startPos + (snd endPos - snd startPos) * progress2
      in (progress2, (curLat, curLng)))"

section \<open>Notions used to state the properties\<close>

text \<open>
  The transition table of the specification's dispatch state machine: the only status
  that may follow each status. It is written from the specification, to compare the
  handlers with it.
\<close>

fun spec_successor :: "DeliveryStatus \<Rightarrow> DeliveryStatus option" where
  "spec_successor PENDING = Some ACCEPTED"
| "spec_successor ACCEPTED = Some PICKED_UP"
| "spec_successor PICKED_UP = Some ARRIVED_DESTINATION"
| "spec_successor ARRIVED_DESTINATION = Some DELIVERED"
| "spec_successor DELIVERED = None"

text \<open>
  A list \<open>rs'\<close> advances a list \<open>rs\<close> when, position by position, the status is the
  same or the table's successor of the old one.
\<close>

definition advances :: "DeliveryRequest list \<Rightarrow> DeliveryRequest list \<Rightarrow> bool" where
  "advances rs rs' =
     (length rs' = length rs \<and>
      (\<forall>k < length rs. status (rs' ! k) = status (rs ! k) \<or>
                        spec_successor (status (rs ! k)) = Some (status (rs' ! k))))"

text \<open>
  After a change of the request list both detection effects run, in the order in which
  the component declares them and both on the values of the render that precedes them.
  \<open>commitEffects\<close> is the state after their writes: the active delivery is the one the
  first effect found; the offer and the selected id are those the second effect wrote,
  computed from the old active delivery (its write of the offer comes last); the tab is
  home when either effect set it. The active delivery has been written then, so the
  offer effect runs once more, now on the new values; \<open>settle\<close> is the state after that
  second run. (When the active delivery did not change, the second run writes what the
  first wrote.)
\<close>

definition commitEffects :: "DeliveryRequest list \<Rightarrow> CourierState \<Rightarrow> CourierState" where
  "commitEffects requests st =
     (let first = activeDeliveryDetection requests st;
          second = offerDetection requests st
      in second\<lparr>activeDelivery := activeDelivery first,
                activeTab := (if activeDelivery first \<noteq> None then TabHome else activeTab second)\<rparr>)"

definition settle :: "DeliveryRequest list \<Rightarrow> CourierState \<Rightarrow> CourierState" where
  "settle requests st = offerDetection requests (commitEffects requests st)"

text \<open>
  A state is settled for a list when running the effects again changes neither the active
  delivery nor the offer: it is a state the effects leave behind. A click on a row of the
  list of pending requests writes that request into the offer without any effect running
  again; such a state need not be settled, and the statements below that assume a settled
  state say nothing about it.
\<close>

definition settled :: "DeliveryRequest list \<Rightarrow> CourierState \<Rightarrow> bool" where
  "settled requests st =
     (activeDelivery (settle requests st) = activeDelivery st \<and>
      incomingOffer (settle requests st) = incomingOffer st)"

text \<open>
  The specification's reading of the geocoder: the tiers whose fields are present, in the
  order exact, street, neighborhood, city, each with its query; and a cascade that sends
  the queries one after the other and stops at the first match. Presence of a field is
  taken after trimming, as the code does.
\<close>

definition spec_tiers :: "string \<Rightarrow> string \<Rightarrow> string \<Rightarrow> string \<Rightarrow> (Precision \<times> string) list" where
  "spec_tiers street number neighborhood city =
     (let s = trim street; n = trim number; h = trim neighborhood; c = trim city
      in (if s \<noteq> [] \<and> n \<noteq> [] \<and> c \<noteq> [] then [(Exact, s @ '', '' @ n @ '', '' @ c @ region)] else []) @
         (if s \<noteq> [] \<and> c \<noteq> [] then [(Street, s @ '', '' @ c @ region)] else []) @
         (if h \<noteq> [] \<and> c \<noteq> [] then [(Neighborhood, h @ '', '' @ c @ region)] else []) @
         (if c \<noteq> [] then [(City, c @ region)] else []))"

fun spec_cascade ::
  "'w lookup \<Rightarrow> (Precision \<times> string) list \<Rightarrow> 'w net \<Rightarrow> GeocodeResult option \<times> 'w net" where
  "spec_cascade lookup [] n = (None, n)"
| "spec_cascade lookup ((p, q) # ts) n =
     (case doFetch lookup q n of
        (Some hit, n') \<Rightarrow> (Some (toResult p hit), n')
      | (None, n') \<Rightarrow> spec_cascade lookup ts n')"

text \<open>An answer of the geocoding service, for the examples.\<close>

definition sampleHit :: NominatimHit where
  "sampleHit = \<lparr>hit_lat = - 29.7, hit_lon = - 53.8, hit_display_name = ''Y''\<rparr>"

section \<open>The status update\<close>

lemma handleUpdateStatus_length: "length (handleUpdateStatus i s rs) = length rs"
  by (simp add: handleUpdateStatus_def)

lemma handleUpdateStatus_nth:
  "k < length rs \<Longrightarrow>
   handleUpdateStatus i s rs ! k = (if req_id (rs ! k) = i then (rs ! k)\<lparr>status := s\<rparr> else rs ! k)"
  by (simp add: handleUpdateStatus_def)

lemma handleUpdateStatus_absent:
  "i \<notin> req_id ` set rs \<Longrightarrow> handleUpdateStatus i s rs = rs"
  unfolding handleUpdateStatus_def by (induction rs) auto

text \<open>
  C9. The status update keeps the length of the list. At every position, a request whose
  id is the given one becomes itself with the status field replaced, a request with
  another id is unchanged, and in both cases putting the old status back gives the old
  request: no field other than the status differs. When no request has the given id the
  list comes back identical. The operation is a total function with no error value.
\<close>

theorem C9_update_status_frame:
  "length (handleUpdateStatus i s rs) = length rs \<and>
   (\<forall>k < length rs.
      (req_id (rs ! k) = i \<longrightarrow> handleUpdateStatus i s rs ! k = (rs ! k)\<lparr>status := s\<rparr>) \<and>
      (req_id (rs ! k) \<noteq> i \<longrightarrow> handleUpdateStatus i s rs ! k = rs ! k) \<and>
      (handleUpdateStatus i s rs ! k)\<lparr>status := status (rs ! k)\<rparr> = rs ! k) \<and>
   (i \<notin> req_id ` set rs \<longrightarrow> handleUpdateStatus i s rs = rs)"
  by (simp add: handleUpdateStatus_length handleUpdateStatus_nth handleUpdateStatus_absent)

theorem C9_update_status_frame_witness:
  "handleUpdateStatus ''2'' DELIVERED (initialRequests 0) ! 0 = initialRequests 0 ! 0 \<and>
   handleUpdateStatus ''2'' DELIVERED (initialRequests 0) ! 1 =
     (initialRequests 0 ! 1)\<lparr>status := DELIVERED\<rparr> \<and>
   handleUpdateStatus ''3'' DELIVERED (initialRequests 0) = initialRequests 0"
  using C9_update_status_frame [of "''2''" DELIVERED "initialRequests 0"]
        C9_update_status_frame [of "''3''" DELIVERED "initialRequests 0"]
  by (simp add: initialRequests_def)

section \<open>The courier's handlers and the status sequence\<close>

subsection \<open>Settled states\<close>

lemma offerDetection_reads:
  "activeDelivery (offerDetection rs st) = activeDelivery st"
  "isOnline (offerDetection rs st) = isOnline st"
  "ignoredOffers (offerDetection rs st) = ignoredOffers st"
  by (simp_all add: offerDetection_def split: option.splits)

lemma offerDetection_offer:
  "incomingOffer (offerDetection rs st) =
     (if \<not> isOnline st \<or> activeDelivery st \<noteq> None then None
      else find (isOfferable (ignoredOffers st)) rs)"
  by (simp add: offerDetection_def split: option.splits)

lemma commitEffects_reads:
  "activeDelivery (commitEffects rs st) = find isActiveStatus rs"
  "isOnline (commitEffects rs st) = isOnline st"
  "ignoredOffers (commitEffects rs st) = ignoredOffers st"
  by (simp_all add: commitEffects_def Let_def offerDetection_reads activeDeliveryDetection_def)

lemma settle_active: "activeDelivery (settle rs st) = find isActiveStatus rs"
  by (simp add: settle_def offerDetection_reads commitEffects_reads)

lemma settle_offer:
  "incomingOffer (settle rs st) =
     (if \<not> isOnline st \<or> find isActiveStatus rs \<noteq> None then None
      else find (isOfferable (ignoredOffers st)) rs)"
  by (simp add: settle_def offerDetection_offer commitEffects_reads)

lemma settle_reads:
  "isOnline (settle rs st) = isOnline st" "ignoredOffers (settle rs st) = ignoredOffers st"
  by (simp_all add: settle_def offerDetection_reads commitEffects_reads)

lemma settled_active: "settled rs st \<Longrightarrow> activeDelivery st = find isActiveStatus rs"
  by (simp add: settled_def settle_active)

lemma settled_offer:
  assumes "settled rs st" "incomingOffer st = Some offer"
  shows "find (isOfferable (ignoredOffers st)) rs = Some offer"
proof -
  from assms have "incomingOffer (settle rs st) = Some offer" by (simp add: settled_def)
  then show ?thesis by (simp add: settle_offer split: if_splits)
qed

lemma settle_settled: "settled rs (settle rs st)"
  by (simp add: settled_def settle_active settle_offer settle_reads)

lemma find_in_set: "find P xs = Some x \<Longrightarrow> x \<in> set xs \<and> P x"
  by (auto simp: find_Some_iff)

lemma settled_offer_pending:
  assumes "settled rs st" "incomingOffer st = Some offer"
  shows "offer \<in> set rs" "status offer = PENDING"
  using settled_offer[OF assms] by (auto dest: find_in_set simp: isOfferable_def)

lemma initial_offer:
  "settle (initialRequests 0) initialCourierState =
     initialCourierState\<lparr>incomingOffer := Some (initialRequests 0 ! 0), selectedId := Some ''1''\<rparr>"
  by (simp add: settle_def commitEffects_def initialRequests_def initialCourierState_def
        activeDeliveryDetection_def offerDetection_def isActiveStatus_def isOfferable_def Let_def)

subsection \<open>One step along the sequence\<close>

lemma distinct_ids_unique:
  assumes "distinct (map req_id rs)" "a \<in> set rs" "k < length rs" "req_id (rs ! k) = req_id a"
  shows "rs ! k = a"
proof -
  from assms(2) obtain j where j: "j < length rs" "rs ! j = a"
    by (auto simp: in_set_conv_nth)
  with assms(3,4) have "map req_id rs ! k = map req_id rs ! j" by simp
  moreover have "k < length (map req_id rs)" "j < length (map req_id rs)"
    using assms(3) j(1) by simp_all
  ultimately have "k = j"
    using assms(1) nth_eq_iff_index_eq by blast
  with j(2) show ?thesis by simp
qed

lemma advances_refl: "advances rs rs"
  by (simp add: advances_def)

lemma update_advances:
  assumes "distinct (map req_id rs)" "a \<in> set rs" "spec_successor (status a) = Some s"
  shows "advances rs (handleUpdateStatus (req_id a) s rs)"
  unfolding advances_def
proof (intro conjI allI impI)
  show "length (handleUpdateStatus (req_id a) s rs) = length rs"
    by (rule handleUpdateStatus_length)
next
  fix k assume k: "k < length rs"
  show "status (handleUpdateStatus (req_id a) s rs ! k) = status (rs ! k) \<or>
        spec_successor (status (rs ! k)) = Some (status (handleUpdateStatus (req_id a) s rs ! k))"
  proof (cases "req_id (rs ! k) = req_id a")
    case True
    have "rs ! k = a" by (rule distinct_ids_unique[OF assms(1,2) k True])
    with True k assms(3) show ?thesis by (simp add: handleUpdateStatus_nth)
  next
    case False
    with k show ?thesis by (simp add: handleUpdateStatus_nth)
  qed
qed

lemma progress_advances:
  assumes "distinct (map req_id rs)" "settled rs st"
  shows "advances rs (fst (handleProgressAction (rs, st)))"
proof (cases "activeDelivery st")
  case None
  then show ?thesis by (simp add: handleProgressAction_def advances_refl)
next
  case (Some a)
  with assms(2) have "find isActiveStatus rs = Some a" by (simp add: settled_active)
  then have a: "a \<in> set rs" by (simp add: find_in_set)
  show ?thesis
    using Some update_advances[OF assms(1) a]
    by (cases "status a") (simp_all add: handleProgressAction_def advances_refl)
qed

lemma accept_advances:
  assumes "distinct (map req_id rs)" "settled rs st"
  shows "advances rs (fst (handleAcceptOffer (rs, st)))"
proof (cases "incomingOffer st")
  case None
  then show ?thesis by (simp add: handleAcceptOffer_def advances_refl)
next
  case (Some offer)
  with assms(2) have "offer \<in> set rs" "status offer = PENDING"
    by (simp_all add: settled_offer_pending)
  with Some update_advances[OF assms(1), of offer ACCEPTED] show ?thesis
    by (simp add: handleAcceptOffer_def)
qed

lemma decline_same: "fst (handleDeclineOffer (rs, st)) = rs"
  by (simp add: handleDeclineOffer_def split: option.splits)

text \<open>
  The status update does not check the old status. On the initial list it moves request
  1 from PENDING straight to DELIVERED, and from there back to PENDING; neither pair is
  in the transition table, and both updates take effect.
\<close>

theorem C1_counterexample:
  "status (initialRequests 0 ! 0) = PENDING \<and>
   status (handleUpdateStatus ''1'' DELIVERED (initialRequests 0) ! 0) = DELIVERED \<and>
   spec_successor PENDING \<noteq> Some DELIVERED \<and>
   status (handleUpdateStatus ''1'' PENDING (handleUpdateStatus ''1'' DELIVERED (initialRequests 0)) ! 0)
     = PENDING \<and>
   spec_successor DELIVERED \<noteq> Some PENDING"
  by (simp add: handleUpdateStatus_def initialRequests_def)

text \<open>
  C1, as the code has it. The status update sets the status of every request with the
  given id to the status it is given, whatever the old one, and has no failure. The
  sequence PENDING, ACCEPTED, PICKED_UP, ARRIVED_DESTINATION, DELIVERED is kept by the
  courier's handlers: when the ids of the list are distinct and the courier state is
  settled, accepting the offer, declining it and the progress action each leave every
  request's status as it was or move it to its successor in the sequence. A handler that
  has nothing to act on (no offer, no active delivery) returns the list unchanged; it
  reports no error.
\<close>

theorem C1_status_sequence:
  "(\<forall>k < length rs. req_id (rs ! k) = i \<longrightarrow> status (handleUpdateStatus i s rs ! k) = s) \<and>
   (distinct (map req_id rs) \<and> settled rs st \<longrightarrow>
      advances rs (fst (handleAcceptOffer (rs, st))) \<and>
      advances rs (fst (handleDeclineOffer (rs, st))) \<and>
      advances rs (fst (handleProgressAction (rs, st)))) \<and>
   (incomingOffer st = None \<longrightarrow> fst (handleAcceptOffer (rs, st)) = rs) \<and>
   (activeDelivery st = None \<longrightarrow> fst (handleProgressAction (rs, st)) = rs)"
proof (intro conjI impI allI)
  fix k assume "k < length rs" "req_id (rs ! k) = i"
  then show "status (handleUpdateStatus i s rs ! k) = s"
    by (simp add: handleUpdateStatus_nth)
next
  assume "distinct (map req_id rs) \<and> settled rs st"
  then show "advances rs (fst (handleAcceptOffer (rs, st)))"
    by (simp add: accept_advances)
next
  show "advances rs (fst (handleDeclineOffer (rs, st)))"
    by (simp add: decline_same advances_refl)
next
  assume "distinct (map req_id rs) \<and> settled rs st"
  then show "advances rs (fst (handleProgressAction (rs, st)))"
    by (simp add: progress_advances)
next
  assume "incomingOffer st = None"
  then show "fst (handleAcceptOffer (rs, st)) = rs"
    by (simp add: handleAcceptOffer_def)
next
  assume "activeDelivery st = None"
  then show "fst (handleProgressAction (rs, st)) = rs"
    by (simp add: handleProgressAction_def)
qed

theorem C1_status_sequence_witness:
  "distinct (map req_id (initialRequests 0)) \<and>
   settled (initialRequests 0) (settle (initialRequests 0) initialCourierState) \<and>
   map status (fst (handleAcceptOffer
       (initialRequests 0, settle (initialRequests 0) initialCourierState))) = [ACCEPTED, PENDING] \<and>
   advances (initialRequests 0)
     (fst (handleAcceptOffer (initialRequests 0, settle (initialRequests 0) initialCourierState))) \<and>
   status (handleUpdateStatus ''2'' DELIVERED (initialRequests 0) ! 1) = DELIVERED \<and>
   fst (handleProgressAction (initialRequests 0, initialCourierState)) = initialRequests 0"
  using C1_status_sequence [of "initialRequests 0" "''2''" DELIVERED
          "settle (initialRequests 0) initialCourierState"]
        C1_status_sequence [of "initialRequests 0" "''2''" DELIVERED initialCourierState]
        settle_settled [of "initialRequests 0" initialCourierState]
  by (simp add: initial_offer handleAcceptOffer_def handleUpdateStatus_def)
     (simp add: initialRequests_def initialCourierState_def)

subsection \<open>Accepting an offer\<close>

text \<open>
  Accepting does not look at the status of the request in the list. With request 1
  already PICKED_UP and an offer that still names it, the handler puts it back to
  ACCEPTED: the list changes and nothing is reported.
\<close>

theorem C2_counterexample:
  "status (handleUpdateStatus ''1'' PICKED_UP (initialRequests 0) ! 0) = PICKED_UP \<and>
   incomingOffer (initialCourierState\<lparr>incomingOffer := Some (initialRequests 0 ! 0)\<rparr>)
     = Some (initialRequests 0 ! 0) \<and>
   status (fst (handleAcceptOffer
        (handleUpdateStatus ''1'' PICKED_UP (initialRequests 0),
         initialCourierState\<lparr>incomingOffer := Some (initialRequests 0 ! 0)\<rparr>)) ! 0) = ACCEPTED \<and>
   fst (handleAcceptOffer
        (handleUpdateStatus ''1'' PICKED_UP (initialRequests 0),
         initialCourierState\<lparr>incomingOffer := Some (initialRequests 0 ! 0)\<rparr>))
     \<noteq> handleUpdateStatus ''1'' PICKED_UP (initialRequests 0)"
  by (simp add: handleAcceptOffer_def handleUpdateStatus_def initialRequests_def)

lemma accept_twice: "handleAcceptOffer (handleAcceptOffer a) = handleAcceptOffer a"
  by (cases a) (simp add: handleAcceptOffer_def split: option.splits)

text \<open>
  C2, as the code has it. Accepting clears the offer, so a second call right after the
  first changes nothing more: of two calls in a row only the first acts. Without an offer
  the handler changes nothing. With an offer it sets the status of every request with the
  offer's id to ACCEPTED, whatever the status was, and there is no AlreadyTaken error. In
  a settled state the offer is a request of the list whose status is PENDING, so there
  the call is the step from PENDING to ACCEPTED.
\<close>

theorem C2_accept:
  "handleAcceptOffer (handleAcceptOffer (rs, st)) = handleAcceptOffer (rs, st) \<and>
   incomingOffer (snd (handleAcceptOffer (rs, st))) = None \<and>
   (incomingOffer st = None \<longrightarrow> handleAcceptOffer (rs, st) = (rs, st)) \<and>
   (\<forall>offer. incomingOffer st = Some offer \<longrightarrow>
      fst (handleAcceptOffer (rs, st)) = handleUpdateStatus (req_id offer) ACCEPTED rs \<and>
      (\<forall>k < length rs. req_id (rs ! k) = req_id offer \<longrightarrow>
         status (fst (handleAcceptOffer (rs, st)) ! k) = ACCEPTED) \<and>
      (settled rs st \<longrightarrow> offer \<in> set rs \<and> status offer = PENDING))"
proof (intro conjI impI allI)
  show "handleAcceptOffer (handleAcceptOffer (rs, st)) = handleAcceptOffer (rs, st)"
    by (rule accept_twice)
  show "incomingOffer (snd (handleAcceptOffer (rs, st))) = None"
    by (simp add: handleAcceptOffer_def split: option.splits)
next
  assume "incomingOffer st = None"
  then show "handleAcceptOffer (rs, st) = (rs, st)"
    by (simp add: handleAcceptOffer_def)
next
  fix offer assume o: "incomingOffer st = Some offer"
  then show upd: "fst (handleAcceptOffer (rs, st)) = handleUpdateStatus (req_id offer) ACCEPTED rs"
    by (simp add: handleAcceptOffer_def)
  fix k assume "k < length rs" "req_id (rs ! k) = req_id offer"
  with upd show "status (fst (handleAcceptOffer (rs, st)) ! k) = ACCEPTED"
    by (simp add: handleUpdateStatus_nth)
next
  fix offer assume "incomingOffer st = Some offer" "settled rs st"
  then show "offer \<in> set rs" "status offer = PENDING"
    by (simp_all add: settled_offer_pending)
qed

theorem C2_accept_witness:
  "incomingOffer (settle (initialRequests 0) initialCourierState) = Some (initialRequests 0 ! 0) \<and>
   settled (initialRequests 0) (settle (initialRequests 0) initialCourierState) \<and>
   status (initialRequests 0 ! 0) = PENDING \<and>
   map status (fst (handleAcceptOffer
       (initialRequests 0, settle (initialRequests 0) initialCourierState))) = [ACCEPTED, PENDING] \<and>
   handleAcceptOffer (initialRequests 0, initialCourierState) = (initialRequests 0, initialCourierState)"
  using C2_accept [of "initialRequests 0" "settle (initialRequests 0) initialCourierState"]
        C2_accept [of "initialRequests 0" initialCourierState]
        settle_settled [of "initialRequests 0" initialCourierState]
  by (simp add: initial_offer handleUpdateStatus_def)
     (simp add: initialRequests_def initialCourierState_def)

subsection \<open>Choosing the offer\<close>

text \<open>
  Two requests are created on an empty list, the first at time 1 and the second at time
  2. Both are PENDING and nothing is ignored, yet the offer is the one created at time 2:
  the younger of the two.
\<close>

theorem C3_counterexample:
  "map createdAt (handleCreateRequest ''b'' 2 (initialRequests 0 ! 0)
        (handleCreateRequest ''a'' 1 (initialRequests 0 ! 1) [])) = [2, 1] \<and>
   map status (handleCreateRequest ''b'' 2 (initialRequests 0 ! 0)
        (handleCreateRequest ''a'' 1 (initialRequests 0 ! 1) [])) = [PENDING, PENDING] \<and>
   isOnline initialCourierState \<and> activeDelivery initialCourierState = None \<and>
   ignoredOffers initialCourierState = {} \<and>
   map_option createdAt (incomingOffer (offerDetection
      (handleCreateRequest ''b'' 2 (initialRequests 0 ! 0)
        (handleCreateRequest ''a'' 1 (initialRequests 0 ! 1) [])) initialCourierState)) = Some 2"
  by (simp add: handleCreateRequest_def initialRequests_def initialCourierState_def
        offerDetection_def isOfferable_def)

text \<open>
  C3, as the code has it. When the courier is online and has no active delivery, the
  offer is the first request in the order of the list whose status is PENDING and whose
  id is not ignored: a request is the offer exactly when it sits at a position with these
  two properties and no earlier position has them. The state holds one offer or none. A
  new request is put at the front of the list, so the list runs from the youngest to the
  oldest: a request just created, if its id is not ignored, is the offer.
\<close>

theorem C3_offer_selection:
  "(isOnline st \<and> activeDelivery st = None \<longrightarrow>
      incomingOffer (offerDetection rs st) = find (isOfferable (ignoredOffers st)) rs \<and>
      (\<forall>r. incomingOffer (offerDetection rs st) = Some r \<longleftrightarrow>
           (\<exists>k < length rs. rs ! k = r \<and> status r = PENDING \<and> req_id r \<notin> ignoredOffers st \<and>
              (\<forall>j < k. \<not> (status (rs ! j) = PENDING \<and> req_id (rs ! j) \<notin> ignoredOffers st)))) \<and>
      (random_id \<notin> ignoredOffers st \<longrightarrow>
         incomingOffer (offerDetection (handleCreateRequest random_id now newRequest rs) st) =
           Some (newRequest\<lparr>req_id := random_id, createdAt := now, status := PENDING\<rparr>)))"
proof (intro impI conjI allI)
  assume a: "isOnline st \<and> activeDelivery st = None"
  then show f: "incomingOffer (offerDetection rs st) = find (isOfferable (ignoredOffers st)) rs"
    by (simp add: offerDetection_def split: option.splits)
  fix r
  show "incomingOffer (offerDetection rs st) = Some r \<longleftrightarrow>
           (\<exists>k < length rs. rs ! k = r \<and> status r = PENDING \<and> req_id r \<notin> ignoredOffers st \<and>
              (\<forall>j < k. \<not> (status (rs ! j) = PENDING \<and> req_id (rs ! j) \<notin> ignoredOffers st)))"
    unfolding f find_Some_iff isOfferable_def by auto
next
  assume a: "isOnline st \<and> activeDelivery st = None" and b: "random_id \<notin> ignoredOffers st"
  then show "incomingOffer (offerDetection (handleCreateRequest random_id now newRequest rs) st) =
           Some (newRequest\<lparr>req_id := random_id, createdAt := now, status := PENDING\<rparr>)"
    by (simp add: offerDetection_def handleCreateRequest_def isOfferable_def)
qed

theorem C3_offer_selection_witness:
  "isOnline initialCourierState \<and> activeDelivery initialCourierState = None \<and>
   incomingOffer (offerDetection (initialRequests 0) initialCourierState) = Some (initialRequests 0 ! 0) \<and>
   incomingOffer (offerDetection (initialRequests 0) (initialCourierState\<lparr>ignoredOffers := {''1''}\<rparr>))
     = Some (initialRequests 0 ! 1) \<and>
   map_option req_id (incomingOffer (offerDetection
       (handleCreateRequest ''n'' 5 (initialRequests 0 ! 0) (initialRequests 0)) initialCourierState))
     = Some ''n''"
  using C3_offer_selection [of initialCourierState "initialRequests 0" "''n''" 5 "initialRequests 0 ! 0"]
        C3_offer_selection [of "initialCourierState\<lparr>ignoredOffers := {''1''}\<rparr>" "initialRequests 0"
           "''n''" 5 "initialRequests 0 ! 0"]
  by (simp add: initialRequests_def initialCourierState_def isOfferable_def)

section \<open>The synthetic route\<close>

lemma toDouble_unit_binade:
  assumes "1 \<le> \<bar>x\<bar>" "\<bar>x\<bar> < 2"
  shows "toDouble x = of_int (roundHalfEven (x * 2 ^ 52)) / 2 ^ 52"
proof -
  have "0 \<le> log 2 \<bar>x\<bar>" using assms(1) by simp
  moreover have "log 2 \<bar>x\<bar> < 1" using assms by simp
  ultimately have e: "\<lfloor>log 2 \<bar>x\<bar>\<rfloor> = 0" by linarith
  have u: "(2::real) powr (- 52) = 1 / 2 ^ 52"
    by (simp add: powr_minus_divide powr_realpow [symmetric])
  from assms(1) have "x \<noteq> 0" by auto
  then show ?thesis by (simp add: toDouble_def e u Let_def)
qed

lemma doubleSub_examples:
  "doubleSub 1 (- (1 / 2 ^ 60)) = 1" "doubleSub 1 2 = - 1" "doubleSub 1 2.5 = - 1.5"
  unfolding doubleSub_def
  by (subst toDouble_unit_binade; simp add: roundHalfEven_def Let_def)+

text \<open>
  From (1, 1) to (-1 / 2 ^ 60, 2), all four numbers being doubles. The latitudes differ by
  1 + 1 / 2 ^ 60 and the longitudes by 1, so the latitude difference is strictly the
  larger. The machine's difference of the latitudes is 1, which is not larger than 1, and
  the corner is (origin latitude, destination longitude).
\<close>

theorem C4_counterexample:
  "\<bar>- (1 / 2 ^ 60) - 1\<bar> > \<bar>2 - (1::real)\<bar> \<and>
   generateSmartRouteFallback doubleSub (1, 1) (- (1 / 2 ^ 60), 2) =
     [(1, 1), (1, 2), (- (1 / 2 ^ 60), 2)]"
  using doubleSub_examples by (simp add: generateSmartRouteFallback_def)

text \<open>
  C4, as the code has it. The fallback route from an origin to a destination is the
  three-point list of the origin, a corner and the destination. The corner is (destination
  latitude, origin longitude) when the absolute value of the latitude difference, as the
  machine computes it (origin minus destination, rounded to a double), is strictly larger
  than the absolute value of the longitude difference computed the same way, and (origin
  latitude, destination longitude) otherwise. So the route is never empty, its first point
  is the origin and its last the destination. This holds whatever the machine's
  subtraction is.
\<close>

theorem C4_fallback_route:
  "generateSmartRouteFallback sub origin destination =
     [origin,
      if \<bar>sub (fst origin) (fst destination)\<bar> > \<bar>sub (snd origin) (snd destination)\<bar>
      then (fst destination, snd origin) else (fst origin, snd destination),
      destination] \<and>
   generateSmartRouteFallback sub origin destination \<noteq> [] \<and>
   hd (generateSmartRouteFallback sub origin destination) = origin \<and>
   last (generateSmartRouteFallback sub origin destination) = destination"
  by (cases origin; cases destination) (simp add: generateSmartRouteFallback_def)

theorem C4_fallback_route_witness:
  "generateSmartRouteFallback doubleSub (1, 1) (2.5, 2) = [(1, 1), (2.5, 1), (2.5, 2)] \<and>
   generateSmartRouteFallback doubleSub (1, 1) (2, 2.5) = [(1, 1), (1, 2.5), (2, 2.5)]"
  using C4_fallback_route [of doubleSub "(1, 1)" "(2.5, 2)"]
        C4_fallback_route [of doubleSub "(1, 1)" "(2, 2.5)"]
        doubleSub_examples
  by simp

text \<open>
  Where the fallback is used: with a request to show and the courier online, a routing
  answer that is missing or empty makes the drawn line the fallback from the pickup to the
  dropoff point; and whatever is drawn has at least one point.
\<close>

lemma drawRoute_fallback:
  assumes "activeDelivery st = Some target \<or> activeDelivery st = None \<and> incomingOffer st = Some target"
    and "isOnline st"
    and "fetchRoute (getPickupCoords st target) (getDropoffCoords st target) \<in> {None, Some []}"
  shows "drawRoute sub fetchRoute st =
           Some (generateSmartRouteFallback sub (getPickupCoords st target) (getDropoffCoords st target))"
proof -
  have "generateSmartRouteFallback sub (getPickupCoords st target) (getDropoffCoords st target) \<noteq> []"
    by (cases "getPickupCoords st target"; cases "getDropoffCoords st target")
       (simp add: generateSmartRouteFallback_def)
  with assms show ?thesis
    by (auto simp: drawRoute_def isNum_def Let_def)
qed

lemma drawRoute_nonempty: "drawRoute sub fetchRoute st = Some ps \<Longrightarrow> ps \<noteq> []"
  by (auto simp: drawRoute_def Let_def split: option.splits if_splits)

section \<open>Stops, legs and targets\<close>

lemma getCoordinates_id1: "getCoordinates ''1'' a b = (a - 1 / 2500, b - 13 / 2500)"
  by (simp add: getCoordinates_def getSafeLat_def getSafeLng_def isNum_def Let_def)

text \<open>
  A request that has arrived at its destination, with pickup (1, 1) and dropoff (2, 2):
  the segment of the simulated courier is from the dropoff point to itself, not from the
  pickup point to the dropoff point.
\<close>

theorem C7_counterexample:
  "trackingLeg (0, 0)
     (Some ((initialRequests 0 ! 0)\<lparr>status := ARRIVED_DESTINATION,
        pickupLat := Some 1, pickupLng := Some 1, dropoffLat := Some 2, dropoffLng := Some 2\<rparr>))
   = Some ((2, 2), (2, 2)) \<and>
   trackingPickup (0, 0)
     ((initialRequests 0 ! 0)\<lparr>status := ARRIVED_DESTINATION,
        pickupLat := Some 1, pickupLng := Some 1, dropoffLat := Some 2, dropoffLng := Some 2\<rparr>)
   = (1, 1) \<and>
   trackingLeg (0, 0)
     (Some ((initialRequests 0 ! 0)\<lparr>status := ARRIVED_DESTINATION,
        pickupLat := Some 1, pickupLng := Some 1, dropoffLat := Some 2, dropoffLng := Some 2\<rparr>))
   \<noteq> Some ((1, 1), (2, 2))"
  by (simp add: trackingLeg_def trackingPickup_def trackingDropoff_def initialRequests_def Let_def)

text \<open>
  C7, as the code has it. For a request whose status is PICKED_UP the segment of the
  simulated courier runs from the pickup point to the dropoff point. For a request whose
  status is ARRIVED_DESTINATION it starts and ends at the dropoff point. In both statuses
  the courier's navigation target is the dropoff point: with dropoff coordinates stored
  (and not zero) the target, the customer's dropoff point and the value of the courier's
  dropoff accessor are the stored pair. With pickup coordinates stored (and not zero) the
  customer's pickup point and the value of the courier's pickup accessor are the stored
  pair.
\<close>

theorem C7_active_leg:
  "(status r = PICKED_UP \<longrightarrow>
      trackingLeg u (Some r) = Some (trackingPickup u r, trackingDropoff u r)) \<and>
   (status r = ARRIVED_DESTINATION \<longrightarrow>
      trackingLeg u (Some r) = Some (trackingDropoff u r, trackingDropoff u r)) \<and>
   ((status r = PICKED_UP \<or> status r = ARRIVED_DESTINATION) \<and>
    truthy (dropoffLat r) \<and> truthy (dropoffLng r) \<longrightarrow>
      getTargetCoordinates st r = Some (the (dropoffLat r), the (dropoffLng r)) \<and>
      trackingDropoff u r = (the (dropoffLat r), the (dropoffLng r)) \<and>
      getDropoffCoords st r = (the (dropoffLat r), the (dropoffLng r))) \<and>
   (truthy (pickupLat r) \<and> truthy (pickupLng r) \<longrightarrow>
      trackingPickup u r = (the (pickupLat r), the (pickupLng r)) \<and>
      getPickupCoords st r = (the (pickupLat r), the (pickupLng r)))"
  by (simp add: trackingLeg_def trackingPickup_def trackingDropoff_def Let_def
        getTargetCoordinates_def getDropoffCoords_def getPickupCoords_def isNum_def)

theorem C7_active_leg_witness:
  "trackingLeg (0, 0)
     (Some ((initialRequests 0 ! 0)\<lparr>status := PICKED_UP,
        pickupLat := Some 1, pickupLng := Some 1, dropoffLat := Some 2, dropoffLng := Some 2\<rparr>))
   = Some ((1, 1), (2, 2)) \<and>
   trackingLeg (0, 0)
     (Some ((initialRequests 0 ! 0)\<lparr>status := ARRIVED_DESTINATION,
        pickupLat := Some 1, pickupLng := Some 1, dropoffLat := Some 2, dropoffLng := Some 2\<rparr>))
   = Some ((2, 2), (2, 2)) \<and>
   getTargetCoordinates initialCourierState
     ((initialRequests 0 ! 0)\<lparr>status := ARRIVED_DESTINATION,
        pickupLat := Some 1, pickupLng := Some 1, dropoffLat := Some 2, dropoffLng := Some 2\<rparr>)
   = Some (2, 2)"
  using C7_active_leg [of "(initialRequests 0 ! 0)\<lparr>status := PICKED_UP,
        pickupLat := Some 1, pickupLng := Some 1, dropoffLat := Some 2, dropoffLng := Some 2\<rparr>"
        "(0, 0)" initialCourierState]
     C7_active_leg [of "(initialRequests 0 ! 0)\<lparr>status := ARRIVED_DESTINATION,
        pickupLat := Some 1, pickupLng := Some 1, dropoffLat := Some 2, dropoffLng := Some 2\<rparr>"
        "(0, 0)" initialCourierState]
  by (simp add: initialRequests_def trackingPickup_def trackingDropoff_def)

text \<open>
  Request 1 with a stored pickup latitude of exactly 0, seen from the customer's side
  with the user at (1, 1): the pickup point is the user's location moved by 0.005, which
  is not the coordinate computed from the id.
\<close>

theorem C10_counterexample:
  "pickupLat ((initialRequests 0 ! 0)\<lparr>pickupLat := Some 0, pickupLng := Some 5\<rparr>) = Some 0 \<and>
   trackingPickup (1, 1) ((initialRequests 0 ! 0)\<lparr>pickupLat := Some 0, pickupLng := Some 5\<rparr>)
     = (0.995, 0.995) \<and>
   getCoordinates (req_id ((initialRequests 0 ! 0)\<lparr>pickupLat := Some 0, pickupLng := Some 5\<rparr>)) 1 1
     = (0.9996, 0.9948) \<and>
   trackingPickup (1, 1) ((initialRequests 0 ! 0)\<lparr>pickupLat := Some 0, pickupLng := Some 5\<rparr>)
     \<noteq> getCoordinates (req_id ((initialRequests 0 ! 0)\<lparr>pickupLat := Some 0, pickupLng := Some 5\<rparr>)) 1 1"
  by (simp add: trackingPickup_def initialRequests_def getCoordinates_id1)

text \<open>
  C10, as the code has it. A stored coordinate of exactly 0 counts as absent in every
  accessor, and the stored pair is not used. What replaces it depends on the accessor.
  For the pickup point: the courier's accessor and the navigation target (before pickup)
  take the coordinate computed from the id around the courier's location; the customer's
  tracking takes the user's location minus 0.005. For the dropoff point: the courier's
  accessor takes the pickup point plus 0.01, the navigation target (after pickup) takes
  the coordinate computed from the id plus 0.01, and the customer's tracking takes the
  user's location plus 0.005.
\<close>

theorem C10_zero_coordinate:
  "(pickupLat r = Some 0 \<or> pickupLng r = Some 0 \<longrightarrow>
      getPickupCoords st r = getCoordinates (req_id r) (fst (userLocation st)) (snd (userLocation st)) \<and>
      (status r \<noteq> PICKED_UP \<and> status r \<noteq> ARRIVED_DESTINATION \<longrightarrow>
         getTargetCoordinates st r =
           Some (getCoordinates (req_id r) (fst (userLocation st)) (snd (userLocation st)))) \<and>
      trackingPickup u r = (fst u - 0.005, snd u - 0.005)) \<and>
   (dropoffLat r = Some 0 \<or> dropoffLng r = Some 0 \<longrightarrow>
      getDropoffCoords st r = (fst (getPickupCoords st r) + 0.01, snd (getPickupCoords st r) + 0.01) \<and>
      (status r = PICKED_UP \<or> status r = ARRIVED_DESTINATION \<longrightarrow>
         getTargetCoordinates st r =
           Some (fst (getCoordinates (req_id r) (fst (userLocation st)) (snd (userLocation st))) + 0.01,
                 snd (getCoordinates (req_id r) (fst (userLocation st)) (snd (userLocation st))) + 0.01)) \<and>
      trackingDropoff u r = (fst u + 0.005, snd u + 0.005))"
  by (auto simp: getPickupCoords_def getDropoffCoords_def getTargetCoordinates_def
        trackingPickup_def trackingDropoff_def isNum_def Let_def)

theorem C10_zero_coordinate_witness:
  "getPickupCoords initialCourierState ((initialRequests 0 ! 0)\<lparr>pickupLat := Some 0, pickupLng := Some 5\<rparr>)
     = getCoordinates ''1'' DEFAULT_LAT DEFAULT_LNG \<and>
   getDropoffCoords initialCourierState
     ((initialRequests 0 ! 0)\<lparr>pickupLat := Some 3, pickupLng := Some 5,
        dropoffLat := Some 7, dropoffLng := Some 0\<rparr>)
     = (3.01, 5.01)"
  using C10_zero_coordinate [of "(initialRequests 0 ! 0)\<lparr>pickupLat := Some 0, pickupLng := Some 5\<rparr>"
          initialCourierState "(0, 0)"]
        C10_zero_coordinate [of "(initialRequests 0 ! 0)\<lparr>pickupLat := Some 3, pickupLng := Some 5,
          dropoffLat := Some 7, dropoffLng := Some 0\<rparr>" initialCourierState "(0, 0)"]
  by (simp add: initialRequests_def initialCourierState_def getPickupCoords_def)

section \<open>The geocoding cascade\<close>

lemma trim_examples:
  "trim ''Rua X'' = ''Rua X''" "trim ''100'' = ''100''" "trim ''Y'' = ''Y''"
  "trim '' '' = []" "trim [] = []"
  by (simp_all add: trim_def isWhiteSpace_def)

lemma attempt_last:
  "(case attempt lookup g q p m of (Some r, m') \<Rightarrow> (Some r, m') | (None, m') \<Rightarrow> (None, m')) =
     spec_cascade lookup (if g then [(p, q)] else []) m"
  by (simp add: attempt_def split: prod.splits option.splits)

lemma attempt_then:
  "(case attempt lookup g q p m of
      (Some r, m') \<Rightarrow> (Some r, m')
    | (None, m') \<Rightarrow> spec_cascade lookup ts m') =
     spec_cascade lookup ((if g then [(p, q)] else []) @ ts) m"
  by (simp add: attempt_def split: prod.splits option.splits)

lemma geocode_is_cascade:
  "geocodeAddress lookup street number neighborhood city n =
     spec_cascade lookup (spec_tiers street number neighborhood city) n"
  unfolding geocodeAddress_def spec_tiers_def Let_def attempt_last attempt_then ..

lemma doFetch_sent: "doFetch lookup q n = (r, n') \<Longrightarrow> snd n' = snd n @ [q]"
  by (auto simp: doFetch_def split: prod.splits)

text \<open>
  What a cascade leaves in the list of queries sent: without a result, the queries of all
  its tiers in order; with a result, the queries up to some tier, whose precision the
  result has.
\<close>

lemma cascade_sent:
  "spec_cascade lookup ts n = (res, n') \<Longrightarrow>
     (case res of
        None \<Rightarrow> snd n' = snd n @ map snd ts
      | Some r \<Rightarrow> (\<exists>k < length ts. precision r = fst (ts ! k) \<and>
                     snd n' = snd n @ map snd (take (Suc k) ts)))"
proof (induction ts arbitrary: n)
  case Nil
  then show ?case by auto
next
  case (Cons t ts)
  obtain p q where t: "t = (p, q)" by (cases t)
  obtain h m where f: "doFetch lookup q n = (h, m)" by (cases "doFetch lookup q n")
  then have m: "snd m = snd n @ [q]" by (rule doFetch_sent)
  show ?case
  proof (cases h)
    case None
    with Cons.prems t f have rest: "spec_cascade lookup ts m = (res, n')" by simp
    show ?thesis
    proof (cases res)
      case None
      with Cons.IH[OF rest] m t show ?thesis by simp
    next
      case (Some r)
      with Cons.IH[OF rest]
      obtain k where "k < length ts" "precision r = fst (ts ! k)"
        "snd n' = snd m @ map snd (take (Suc k) ts)" by auto
      with m t have "Suc k < length (t # ts) \<and> precision r = fst ((t # ts) ! Suc k) \<and>
        snd n' = snd n @ map snd (take (Suc (Suc k)) (t # ts))" by simp
      with Some show ?thesis by (simp only: option.case) blast
    qed
  next
    case (Some hit)
    with Cons.prems t f have "res = Some (toResult p hit)" "n' = m" by simp_all
    with m t show ?thesis by (auto simp: toResult_def)
  qed
qed

text \<open>
  A street that is a single space is not empty, the number and the city are given, and
  the service answers every query. The only query sent is the one of the city tier and
  the result has precision city: the exact tier is not tried.
\<close>

theorem C5_counterexample:
  "'' '' \<noteq> [] \<and> ''100'' \<noteq> [] \<and> ''Y'' \<noteq> [] \<and>
   geocodeAddress (\<lambda>q w. (Some [sampleHit], w)) '' '' ''100'' [] ''Y'' ((), []) =
     (Some (toResult City sampleHit), ((), [''Y, Rio Grande do Sul, Brasil'']))"
  by (simp add: geocodeAddress_def attempt_def doFetch_def trim_examples region_def)

text \<open>
  C5, as the code has it. When street, number and city are all non-empty after trimming,
  the first query the geocoder sends is the one of the exact tier (trimmed street, number
  and city); if that query has a match, the result is that match with precision exact and
  no other query is sent. In general the geocoder is the cascade over the tiers whose
  trimmed fields are non-empty, in the order exact, street, neighborhood, city: the
  queries sent are those of the tiers in order up to the first match, whose tier gives
  the precision of the result, or those of all the tiers when there is no result.
\<close>

theorem C5_cascade_order:
  "(trim street \<noteq> [] \<and> trim number \<noteq> [] \<and> trim city \<noteq> [] \<longrightarrow>
      (\<exists>rest. snd (snd (geocodeAddress lookup street number neighborhood city n)) =
         snd n @ (trim street @ '', '' @ trim number @ '', '' @ trim city @ region) # rest) \<and>
      (\<forall>hit n'. doFetch lookup (trim street @ '', '' @ trim number @ '', '' @ trim city @ region) n
                   = (Some hit, n') \<longrightarrow>
         geocodeAddress lookup street number neighborhood city n = (Some (toResult Exact hit), n') \<and>
         snd n' = snd n @ [trim street @ '', '' @ trim number @ '', '' @ trim city @ region])) \<and>
   geocodeAddress lookup street number neighborhood city n =
     spec_cascade lookup (spec_tiers street number neighborhood city) n \<and>
   (case fst (geocodeAddress lookup street number neighborhood city n) of
      None \<Rightarrow> snd (snd (geocodeAddress lookup street number neighborhood city n)) =
                snd n @ map snd (spec_tiers street number neighborhood city)
    | Some r \<Rightarrow>
        (\<exists>k < length (spec_tiers street number neighborhood city).
           precision r = fst (spec_tiers street number neighborhood city ! k) \<and>
           snd (snd (geocodeAddress lookup street number neighborhood city n)) =
             snd n @ map snd (take (Suc k) (spec_tiers street number neighborhood city))))"
proof (intro conjI impI allI)
  let ?g = "geocodeAddress lookup street number neighborhood city n"
  let ?ts = "spec_tiers street number neighborhood city"
  let ?q = "trim street @ '', '' @ trim number @ '', '' @ trim city @ region"
  show eq: "?g = spec_cascade lookup ?ts n" by (rule geocode_is_cascade)
  have "spec_cascade lookup ?ts n = (fst ?g, snd ?g)" by (simp add: eq)
  from cascade_sent[OF this]
  show "case fst ?g of
      None \<Rightarrow> snd (snd ?g) = snd n @ map snd ?ts
    | Some r \<Rightarrow> (\<exists>k < length ?ts. precision r = fst (?ts ! k) \<and>
           snd (snd ?g) = snd n @ map snd (take (Suc k) ?ts))" .
  {
    assume ne: "trim street \<noteq> [] \<and> trim number \<noteq> [] \<and> trim city \<noteq> []"
    then obtain ts where ts: "?ts = (Exact, ?q) # ts"
      by (simp add: spec_tiers_def Let_def)
    obtain h m where f: "doFetch lookup ?q n = (h, m)" by (cases "doFetch lookup ?q n")
    then have m: "snd m = snd n @ [?q]" by (rule doFetch_sent)
    show "\<exists>rest. snd (snd ?g) = snd n @ ?q # rest"
    proof (cases h)
      case None
      with f ts eq have g: "?g = spec_cascade lookup ts m" by simp
      have "spec_cascade lookup ts m = (fst ?g, snd ?g)" by (simp add: g)
      from cascade_sent[OF this] m show ?thesis
        by (cases "fst ?g") auto
    next
      case (Some hit)
      with f ts eq have "?g = (Some (toResult Exact hit), m)" by simp
      with m show ?thesis by simp
    qed
    fix hit n' assume d: "doFetch lookup ?q n = (Some hit, n')"
    with ts eq show "?g = (Some (toResult Exact hit), n')" by simp
    from d show "snd n' = snd n @ [?q]" by (rule doFetch_sent)
  }
qed

theorem C5_cascade_order_witness:
  "trim ''Rua X'' \<noteq> [] \<and> trim ''100'' \<noteq> [] \<and> trim ''Y'' \<noteq> [] \<and>
   geocodeAddress
     (\<lambda>q w. (if q = ''Rua X, 100, Y, Rio Grande do Sul, Brasil'' then Some [sampleHit] else None, w))
     ''Rua X'' ''100'' ''Centro'' ''Y'' ((), []) =
   (Some (toResult Exact sampleHit), ((), [''Rua X, 100, Y, Rio Grande do Sul, Brasil'']))"
  using C5_cascade_order [of "''Rua X''" "''100''" "''Y''"
     "\<lambda>q w. (if q = ''Rua X, 100, Y, Rio Grande do Sul, Brasil'' then Some [sampleHit] else None, w)"
     "''Centro''" "((), [])"]
  by (simp add: trim_examples region_def doFetch_def)

text \<open>
  C6. With an empty city the geocoder returns no result (\<^verbatim>\<open>null\<close>) and leaves the
  network as it was: the world is untouched and no query is added to those sent.
\<close>

theorem C6_no_city_no_lookup:
  "geocodeAddress lookup street number neighborhood [] n = (None, n)"
  by (simp add: geocodeAddress_def attempt_def trim_def)

section \<open>The simulated courier\<close>

text \<open>
  C8. One tick adds the fixed step 0.005 to the progress. When the sum exceeds 1 the
  progress becomes 0, unless the tracked status is ARRIVED_DESTINATION: then it becomes 1
  and the position is the end point of the segment. In every case the position is
  start + (end - start) * progress in each component, with the new progress.
\<close>

theorem C8_simulation_tick:
  "(progress + 0.005 \<le> 1 \<longrightarrow> fst (simulationTick st startPos endPos progress) = progress + 0.005) \<and>
   (progress + 0.005 > 1 \<and> st \<noteq> ARRIVED_DESTINATION \<longrightarrow>
      fst (simulationTick st startPos endPos progress) = 0) \<and>
   (progress + 0.005 > 1 \<and> st = ARRIVED_DESTINATION \<longrightarrow>
      simulationTick st startPos endPos progress = (1, endPos)) \<and>
   snd (simulationTick st startPos endPos progress) =
     (fst startPos + (fst endPos - fst startPos) * fst (simulationTick st startPos endPos progress),
      snd startPos + (snd endPos - snd startPos) * fst (simulationTick st startPos endPos progress))"
  by (simp add: simulationTick_def Let_def)

theorem C8_simulation_tick_witness:
  "fst (simulationTick PICKED_UP (0, 0) (10, 10) 0.495) = 0.5 \<and>
   snd (simulationTick PICKED_UP (0, 0) (10, 10) 0.495) = (5, 5) \<and>
   fst (simulationTick PICKED_UP (0, 0) (10, 10) 1) = 0 \<and>
   simulationTick ARRIVED_DESTINATION (3, 4) (3, 4) 1 = (1, (3, 4))"
  using C8_simulation_tick [of "0.495" PICKED_UP "(0, 0)" "(10, 10)"]
        C8_simulation_tick [of 1 PICKED_UP "(0, 0)" "(10, 10)"]
        C8_simulation_tick [of 1 ARRIVED_DESTINATION "(3, 4)" "(3, 4)"]
  by simp

text \<open>
  On the segment the tracking effect derives for an arrived request, every tick puts the
  marker on the dropoff point, whatever the progress.
\<close>

lemma arrived_marker_holds:
  assumes "status r = ARRIVED_DESTINATION" "trackingLeg u (Some r) = Some (startPos, endPos)"
  shows "snd (simulationTick (status r) startPos endPos progress) = trackingDropoff u r"
  using assms by (auto simp: trackingLeg_def simulationTick_def Let_def)

end
